theory Spec2Isabelle
  imports Complex_Main
begin

section \<open>JavaScript values and operators used by the dashboard\<close>

text \<open>
  The dashboard is JavaScript; the values that reach its pure logic are numbers,
  \<open>null\<close>, \<open>undefined\<close> and \<open>NaN\<close>. A finite number is modelled as an exact
  rational (\<open>JNum\<close>), so the arithmetic below is the arithmetic of the source
  expressions without the rounding error of IEEE doubles; \<open>NaN\<close> is a value of its own.
  Strings, objects and the infinities are not values of this model.
\<close>

datatype jsval = JUndefined | JNull | JNaN | JNum rat

text \<open>
  \<open>ToNumber\<close> of the language: \<open>undefined\<close> becomes \<open>NaN\<close> (here \<open>None\<close>),
  \<open>null\<close> becomes \<open>0\<close>.
\<close>

fun toNumber :: "jsval \<Rightarrow> rat option" where
  "toNumber JUndefined = None"
| "toNumber JNull = Some 0"
| "toNumber JNaN = None"
| "toNumber (JNum x) = Some x"

definition isNaN :: "jsval \<Rightarrow> bool" where
  "isNaN v = (toNumber v = None)"

text \<open>Truthiness: \<open>undefined\<close>, \<open>null\<close>, \<open>NaN\<close> and \<open>0\<close> are falsy.\<close>

fun truthy :: "jsval \<Rightarrow> bool" where
  "truthy JUndefined = False"
| "truthy JNull = False"
| "truthy JNaN = False"
| "truthy (JNum x) = (x \<noteq> 0)"

text \<open>\<open>a || b\<close> is \<open>a\<close> when \<open>a\<close> is truthy, \<open>b\<close> otherwise.\<close>

definition js_or :: "jsval \<Rightarrow> jsval \<Rightarrow> jsval" where
  "js_or a b = (if truthy a then a else b)"

text \<open>\<open>a <= b\<close>: both sides converted by \<open>ToNumber\<close>; false when either is \<open>NaN\<close>.\<close>

definition js_le :: "jsval \<Rightarrow> jsval \<Rightarrow> bool" where
  "js_le a b = (case toNumber a of None \<Rightarrow> False
                | Some x \<Rightarrow> (case toNumber b of None \<Rightarrow> False | Some y \<Rightarrow> x \<le> y))"

text \<open>\<open>a + b\<close> on the values of this model (no strings): numeric addition.\<close>

definition js_add :: "jsval \<Rightarrow> jsval \<Rightarrow> jsval" where
  "js_add a b = (case toNumber a of None \<Rightarrow> JNaN
                 | Some x \<Rightarrow> (case toNumber b of None \<Rightarrow> JNaN | Some y \<Rightarrow> JNum (x + y)))"

text \<open>\<open>Math.max\<close> and \<open>Math.min\<close> of two arguments: \<open>NaN\<close> when either is \<open>NaN\<close>.\<close>

definition Math_max :: "jsval \<Rightarrow> jsval \<Rightarrow> jsval" where
  "Math_max a b = (case toNumber a of None \<Rightarrow> JNaN
                   | Some x \<Rightarrow> (case toNumber b of None \<Rightarrow> JNaN | Some y \<Rightarrow> JNum (max x y)))"

definition Math_min :: "jsval \<Rightarrow> jsval \<Rightarrow> jsval" where
  "Math_min a b = (case toNumber a of None \<Rightarrow> JNaN
                   | Some x \<Rightarrow> (case toNumber b of None \<Rightarrow> JNaN | Some y \<Rightarrow> JNum (min x y)))"

text \<open>
  \<open>Math.round\<close> on a finite number: the nearest integer, a tie going up
  (\<open>Math.round(2.5) = 3\<close>, \<open>Math.round(-2.5) = -2\<close>).
\<close>

definition Math_round :: "rat \<Rightarrow> rat" where
  "Math_round x = of_int \<lfloor>x + 1 / 2\<rfloor>"

text \<open>
  The decimal text of a natural number, as a template literal prints an index
  (\<open>`Day ${d}`\<close>, \<open>`Hour ${i + 1}`\<close>).
\<close>

definition digit_char :: "nat \<Rightarrow> char" where
  "digit_char d = ''0123456789'' ! d"

fun Number_toString :: "nat \<Rightarrow> string" where
  "Number_toString n =
     (if n < 10 then [digit_char n]
      else Number_toString (n div 10) @ [digit_char (n mod 10)])"

declare Number_toString.simps [simp del]

text \<open>\<open>xs.slice(-n)\<close>: the last \<open>n\<close> elements, all of \<open>xs\<close> when it has fewer.\<close>

definition slice_from_end :: "nat \<Rightarrow> 'a list \<Rightarrow> 'a list" where
  "slice_from_end n xs = drop (length xs - n) xs"

text \<open>Reading a property of an object: \<open>undefined\<close> when the object has no such key.\<close>

definition property :: "(string \<rightharpoonup> jsval) \<Rightarrow> string \<Rightarrow> jsval" where
  "property obj k = (case obj k of None \<Rightarrow> JUndefined | Some v \<Rightarrow> v)"

section \<open>AQI calculation (\<open>getAQIFromPM\<close>)\<close>

record breakpoint =
  cLow :: rat
  cHigh :: rat
  iLow :: rat
  iHigh :: rat

definition pm25Breakpoints :: "breakpoint list" where
  "pm25Breakpoints =
     [\<lparr>cLow = 0, cHigh = 12, iLow = 0, iHigh = 50\<rparr>,
      \<lparr>cLow = 12.1, cHigh = 35.4, iLow = 51, iHigh = 100\<rparr>,
      \<lparr>cLow = 35.5, cHigh = 55.4, iLow = 101, iHigh = 150\<rparr>,
      \<lparr>cLow = 55.5, cHigh = 150.4, iLow = 151, iHigh = 200\<rparr>,
      \<lparr>cLow = 150.5, cHigh = 250.4, iLow = 201, iHigh = 300\<rparr>,
      \<lparr>cLow = 250.5, cHigh = 350.4, iLow = 301, iHigh = 400\<rparr>,
      \<lparr>cLow = 350.5, cHigh = 500, iLow = 401, iHigh = 500\<rparr>]"

definition pm10Breakpoints :: "breakpoint list" where
  "pm10Breakpoints =
     [\<lparr>cLow = 0, cHigh = 54, iLow = 0, iHigh = 50\<rparr>,
      \<lparr>cLow = 55, cHigh = 154, iLow = 51, iHigh = 100\<rparr>,
      \<lparr>cLow = 155, cHigh = 254, iLow = 101, iHigh = 150\<rparr>,
      \<lparr>cLow = 255, cHigh = 354, iLow = 151, iHigh = 200\<rparr>,
      \<lparr>cLow = 355, cHigh = 424, iLow = 201, iHigh = 300\<rparr>,
      \<lparr>cLow = 425, cHigh = 504, iLow = 301, iHigh = 400\<rparr>,
      \<lparr>cLow = 505, cHigh = 604, iLow = 401, iHigh = 500\<rparr>]"

text \<open>
  The \<open>for\<close> loop of \<open>calcAQI\<close> over the table, for a finite number \<open>c\<close>: the first
  segment with \<open>c >= cLow && c <= cHigh\<close> returns the rounded interpolation; falling
  off the end returns \<open>null\<close>. A segment of width zero divides by zero: the quotient is
  an infinity or \<open>NaN\<close>, its product with \<open>c - cLow = 0\<close> is \<open>NaN\<close>, and so is the result.
\<close>

fun calcAQI_loop :: "rat \<Rightarrow> breakpoint list \<Rightarrow> jsval" where
  "calcAQI_loop c [] = JNull"
| "calcAQI_loop c (bp # bps) =
     (if c \<ge> cLow bp \<and> c \<le> cHigh bp then
        (if cHigh bp - cLow bp = 0 then JNaN
         else JNum (Math_round
                ((iHigh bp - iLow bp) / (cHigh bp - cLow bp) * (c - cLow bp) + iLow bp)))
      else calcAQI_loop c bps)"

text \<open>
  \<open>calcAQI\<close>: \<open>null\<close> and \<open>undefined\<close> return \<open>null\<close> at once; for \<open>NaN\<close> every
  comparison of the loop is false, so the loop falls through to \<open>null\<close>.
\<close>

fun calcAQI :: "jsval \<Rightarrow> breakpoint list \<Rightarrow> jsval" where
  "calcAQI JNull breakpoints = JNull"
| "calcAQI JUndefined breakpoints = JNull"
| "calcAQI JNaN breakpoints = JNull"
| "calcAQI (JNum c) breakpoints = calcAQI_loop c breakpoints"

definition getAQIFromPM :: "jsval \<Rightarrow> jsval \<Rightarrow> jsval" where
  "getAQIFromPM pm25 pm10 =
     (let aqiPm25 = calcAQI pm25 pm25Breakpoints;
          aqiPm10 = calcAQI pm10 pm10Breakpoints
      in Math_max (js_or aqiPm25 (JNum 0)) (js_or aqiPm10 (JNum 0)))"

section \<open>Severity classifier (\<open>getQuality\<close>, \<open>AirQualityCard.jsx\<close>)\<close>

record quality =
  label :: string
  color :: string

definition getQuality :: "jsval \<Rightarrow> quality" where
  "getQuality aqi =
     (if js_le aqi (JNum 50) then \<lparr>label = ''Good'', color = ''#00e400''\<rparr>
      else if js_le aqi (JNum 100) then \<lparr>label = ''Moderate'', color = ''#ffff00''\<rparr>
      else if js_le aqi (JNum 150) then \<lparr>label = ''Unhealthy (Sensitive)'', color = ''#ff7e00''\<rparr>
      else if js_le aqi (JNum 200) then \<lparr>label = ''Unhealthy'', color = ''#ff0000''\<rparr>
      else if js_le aqi (JNum 300) then \<lparr>label = ''Very Unhealthy'', color = ''#8f3f97''\<rparr>
      else \<lparr>label = ''Hazardous'', color = ''#7e0023''\<rparr>)"

section \<open>Health advice (the last block rendered by \<open>App\<close>)\<close>

text \<open>
  The block is \<open>!loading && aqi && (...)\<close>: a sentence is shown only when the
  dashboard is not loading and \<open>aqi\<close> is truthy; the sentence is chosen by a chain of
  conditional expressions. \<open>None\<close> stands for no sentence shown.
\<close>

definition healthAdvice :: "bool \<Rightarrow> jsval \<Rightarrow> string option" where
  "healthAdvice loading aqi =
     (if \<not> loading \<and> truthy aqi then
        Some (if js_le aqi (JNum 50) then ''Air quality is good. Enjoy outdoor activities!''
              else if js_le aqi (JNum 100) then
                ''Moderate air quality. Sensitive people should limit outdoor activity.''
              else if js_le aqi (JNum 150) then
                ''Unhealthy for sensitive groups. Avoid outdoor exercise.''
              else if js_le aqi (JNum 200) then
                ''Unhealthy air! Stay indoors with filtered air.''
              else ''Very unhealthy! Avoid going outside and use air purifiers.'')
      else None)"

section \<open>Dashboard state, predictions and the fetch pipeline\<close>

text \<open>
  The state of \<open>App\<close> that the pipeline writes: \<open>aqData\<close> (\<open>None\<close> for its initial
  \<open>null\<close>), \<open>aqi\<close>, \<open>pmTrend\<close>, \<open>predictions\<close> (each a pair of \<open>day\<close> and \<open>aqi\<close>)
  and \<open>loading\<close>. The city and the coordinates play no part in what follows.
\<close>

record trend =
  pm2_5 :: "jsval list"
  pm10 :: "jsval list"
  labels :: "string list"

record app_state =
  aqData :: "(string \<rightharpoonup> jsval) option"
  aqi :: jsval
  pmTrend :: trend
  predictions :: "(string \<times> jsval) list"
  loading :: bool

definition initial_state :: app_state where
  "initial_state =
     \<lparr>aqData = None, aqi = JNull, pmTrend = \<lparr>pm2_5 = [], pm10 = [], labels = []\<rparr>,
      predictions = [], loading = True\<rparr>"

text \<open>
  \<open>generatePredictions\<close>: \<open>[1, 2, 3].map((d, i) => ...)\<close> with \<open>d\<close> the element and
  \<open>i\<close> its index, then \<open>setPredictions(nextDays)\<close>.
\<close>

definition generatePredictions :: "jsval \<Rightarrow> app_state \<Rightarrow> app_state" where
  "generatePredictions currentAQI s =
     (let nextDays =
            map (\<lambda>(i, d).
                   let predicted = Math_min (js_add currentAQI (JNum (of_nat i * 10))) (JNum 500)
                   in (''Day '' @ Number_toString d, predicted))
                (enumerate 0 [1, 2, 3])
      in s\<lparr>predictions := nextDays\<rparr>)"

text \<open>The filter callback \<open>(v) => v !== null && !isNaN(v)\<close>.\<close>

definition validValue :: "jsval \<Rightarrow> bool" where
  "validValue v = (v \<noteq> JNull \<and> \<not> isNaN v)"

text \<open>
  The \<open>hourly\<close> object of the air-quality response: a map from parameter names to
  arrays (every field the service sends is an array).
  \<open>latestValues\<close> is the object built by the first loop of \<open>fetchAirQuality\<close>: for
  each parameter the last valid value, the key left out when there is none.
\<close>

definition latestValues :: "(string \<rightharpoonup> jsval list) \<Rightarrow> (string \<rightharpoonup> jsval)" where
  "latestValues hourly = (\<lambda>param.
     case hourly param of
       None \<Rightarrow> None
     | Some values \<Rightarrow>
         (let validValues = filter validValue values;
              lastValue = (if length validValues > 0 then last validValues else JNull)
          in if lastValue \<noteq> JNull \<and> lastValue \<noteq> JUndefined then Some lastValue else None))"

text \<open>\<open>(hourly.pm2_5 || [])\<close>: the array, or the empty array when the field is absent.\<close>

definition or_empty :: "jsval list option \<Rightarrow> jsval list" where
  "or_empty field = (case field of None \<Rightarrow> [] | Some values \<Rightarrow> values)"

text \<open>\<open>.filter((v) => v !== null && !isNaN(v)).slice(-7)\<close>\<close>

definition trendSeries :: "jsval list \<Rightarrow> jsval list" where
  "trendSeries values = slice_from_end 7 (filter validValue values)"

text \<open>\<open>pm2_5.map((_, i) => `Hour ${i + 1}`)\<close>\<close>

definition trendLabels :: "jsval list \<Rightarrow> string list" where
  "trendLabels series = map (\<lambda>i. ''Hour '' @ Number_toString (i + 1)) [0..<length series]"

text \<open>
  The two responses \<open>fetchAirQuality\<close> awaits. The air-quality request fails (or has no
  \<open>data\<close>), or its \<open>data\<close> has no \<open>hourly\<close>, or it has one. The NASA request fails
  (\<open>None\<close>) or yields the five-field object \<open>nasaLatest\<close>, taken here as given.
\<close>

datatype aq_response = AqFailed | AqNoHourly | AqHourly "string \<rightharpoonup> jsval list"

text \<open>
  \<open>fetchAirQuality\<close>, from the responses to the state after \<open>finally\<close>. A request that
  throws reaches \<open>catch\<close> before any setter ran. With \<open>hourly\<close> undefined the first
  loop runs over nothing, \<open>setAqData\<close> and \<open>setAqi\<close> run, and reading
  \<open>hourly.pm2_5\<close> throws before the trend and the predictions are set.
\<close>

definition fetchAirQuality ::
  "aq_response \<Rightarrow> (string \<rightharpoonup> jsval) option \<Rightarrow> app_state \<Rightarrow> app_state" where
  "fetchAirQuality res nasaRes s =
     (case res of
        AqFailed \<Rightarrow> s\<lparr>loading := False\<rparr>
      | AqNoHourly \<Rightarrow>
          (case nasaRes of
             None \<Rightarrow> s\<lparr>loading := False\<rparr>
           | Some nasaLatest \<Rightarrow>
               s\<lparr>aqData := Some (Map.empty ++ nasaLatest),
                 aqi := getAQIFromPM JUndefined JUndefined,
                 loading := False\<rparr>)
      | AqHourly hourly \<Rightarrow>
          (case nasaRes of
             None \<Rightarrow> s\<lparr>loading := False\<rparr>
           | Some nasaLatest \<Rightarrow>
               (let combinedData = latestValues hourly ++ nasaLatest;
                    currentAQI = getAQIFromPM (property (latestValues hourly) ''pm2_5'')
                                              (property (latestValues hourly) ''pm10'');
                    series25 = trendSeries (or_empty (hourly ''pm2_5''));
                    series10 = trendSeries (or_empty (hourly ''pm10''))
                in generatePredictions currentAQI
                     (s\<lparr>aqData := Some combinedData,
                        aqi := currentAQI,
                        pmTrend := \<lparr>pm2_5 = series25, pm10 = series10,
                                     labels = trendLabels series25\<rparr>,
                        loading := False\<rparr>))))"

text \<open>
  The invariant of both tables that the proofs use: every segment has positive width and
  a non-decreasing index range, and lies entirely below every later segment.
\<close>

fun ordered_table :: "breakpoint list \<Rightarrow> bool" where
  "ordered_table [] = True"
| "ordered_table (bp # bps) =
     (cLow bp < cHigh bp \<and> iLow bp \<le> iHigh bp
      \<and> list_all (\<lambda>b. cHigh bp < cLow b) bps \<and> ordered_table bps)"


section \<open>Properties of the AQI calculation\<close>

lemma js_or_zero:
  "js_or v (JNum 0) = JNum (case v of JNum a \<Rightarrow> a | _ \<Rightarrow> 0)"
  by (cases v) (simp_all add: js_or_def)

text \<open>
  C1. For every pair of optional PM2.5 and PM10 concentrations, the combined AQI of
  \<open>getAQIFromPM\<close> is the maximum of the two sub-indices, an undefined (null)
  sub-index counting as 0; when both concentrations are absent the combined AQI is 0.
\<close>

theorem getAQIFromPM_max_of_subindices:
  "getAQIFromPM c25 c10 =
     JNum (max (case calcAQI c25 pm25Breakpoints of JNum a \<Rightarrow> a | _ \<Rightarrow> 0)
               (case calcAQI c10 pm10Breakpoints of JNum b \<Rightarrow> b | _ \<Rightarrow> 0))
   \<and> getAQIFromPM JUndefined JUndefined = JNum 0
   \<and> getAQIFromPM JNull JNull = JNum 0"
  by (simp add: getAQIFromPM_def js_or_zero Math_max_def)

subsection \<open>The loop inside and outside the segments\<close>

lemma ordered_pm25Breakpoints: "ordered_table pm25Breakpoints"
  by (simp add: pm25Breakpoints_def)

lemma ordered_pm10Breakpoints: "ordered_table pm10Breakpoints"
  by (simp add: pm10Breakpoints_def)

lemma calcAQI_loop_in_segment:
  "ordered_table bps \<Longrightarrow> bp \<in> set bps \<Longrightarrow> cLow bp \<le> c \<Longrightarrow> c \<le> cHigh bp \<Longrightarrow>
   calcAQI_loop c bps =
     JNum (Math_round ((iHigh bp - iLow bp) / (cHigh bp - cLow bp) * (c - cLow bp) + iLow bp))"
proof (induction bps)
  case Nil
  then show ?case by simp
next
  case (Cons b bps)
  show ?case
  proof (cases "bp = b")
    case True
    with Cons.prems show ?thesis by simp
  next
    case False
    with Cons.prems have mem: "bp \<in> set bps" by simp
    from Cons.prems have "list_all (\<lambda>x. cHigh b < cLow x) bps" by simp
    with mem have "cHigh b < cLow bp" by (simp add: list_all_iff)
    with Cons.prems have "\<not> c \<le> cHigh b" by simp
    moreover from Cons.prems have "ordered_table bps" by simp
    ultimately show ?thesis using Cons.IH [OF _ mem] Cons.prems by simp
  qed
qed

lemma ordered_table_slope:
  "ordered_table bps \<Longrightarrow> bp \<in> set bps \<Longrightarrow> 0 \<le> (iHigh bp - iLow bp) / (cHigh bp - cLow bp)"
  by (induction bps) auto

lemma calcAQI_loop_outside:
  "\<forall>bp \<in> set bps. c < cLow bp \<or> cHigh bp < c \<Longrightarrow> calcAQI_loop c bps = JNull"
  by (induction bps) auto

lemma Math_round_mono: "x \<le> y \<Longrightarrow> Math_round x \<le> Math_round y"
  by (simp add: Math_round_def floor_mono)

text \<open>
  C2. At the lower concentration bound of every segment of either table \<open>calcAQI\<close>
  returns exactly the segment's lower index, and at the upper bound exactly the upper
  index; PM2.5 concentration 12 gives 50, alone also as the combined AQI.
\<close>

theorem calcAQI_segment_endpoints:
  "(\<forall>bp \<in> set pm25Breakpoints.
      calcAQI (JNum (cLow bp)) pm25Breakpoints = JNum (iLow bp)
      \<and> calcAQI (JNum (cHigh bp)) pm25Breakpoints = JNum (iHigh bp))
   \<and> (\<forall>bp \<in> set pm10Breakpoints.
      calcAQI (JNum (cLow bp)) pm10Breakpoints = JNum (iLow bp)
      \<and> calcAQI (JNum (cHigh bp)) pm10Breakpoints = JNum (iHigh bp))
   \<and> calcAQI (JNum 12) pm25Breakpoints = JNum 50
   \<and> getAQIFromPM (JNum 12) JUndefined = JNum 50"
proof -
  have pm25: "\<forall>bp \<in> set pm25Breakpoints.
      calcAQI (JNum (cLow bp)) pm25Breakpoints = JNum (iLow bp)
      \<and> calcAQI (JNum (cHigh bp)) pm25Breakpoints = JNum (iHigh bp)"
    by (simp add: pm25Breakpoints_def Math_round_def floor_eq_iff)
  have pm10: "\<forall>bp \<in> set pm10Breakpoints.
      calcAQI (JNum (cLow bp)) pm10Breakpoints = JNum (iLow bp)
      \<and> calcAQI (JNum (cHigh bp)) pm10Breakpoints = JNum (iHigh bp)"
    by (simp add: pm10Breakpoints_def Math_round_def floor_eq_iff)
  have twelve: "calcAQI (JNum 12) pm25Breakpoints = JNum 50"
    by (simp add: pm25Breakpoints_def Math_round_def floor_eq_iff)
  have "getAQIFromPM (JNum 12) JUndefined = JNum 50"
    using twelve by (simp add: getAQIFromPM_def js_or_def Math_max_def)
  with pm25 pm10 twelve show ?thesis by blast
qed

theorem calcAQI_segment_endpoints_witness:
  "\<lparr>cLow = 12.1, cHigh = 35.4, iLow = 51, iHigh = 100\<rparr> \<in> set pm25Breakpoints
   \<and> calcAQI (JNum 12.1) pm25Breakpoints = JNum 51
   \<and> calcAQI (JNum 35.4) pm25Breakpoints = JNum 100
   \<and> \<lparr>cLow = 355, cHigh = 424, iLow = 201, iHigh = 300\<rparr> \<in> set pm10Breakpoints
   \<and> calcAQI (JNum 355) pm10Breakpoints = JNum 201
   \<and> calcAQI (JNum 424) pm10Breakpoints = JNum 300"
proof -
  have m25: "\<lparr>cLow = 12.1, cHigh = 35.4, iLow = 51, iHigh = 100\<rparr> \<in> set pm25Breakpoints"
    by (simp add: pm25Breakpoints_def)
  have m10: "\<lparr>cLow = 355, cHigh = 424, iLow = 201, iHigh = 300\<rparr> \<in> set pm10Breakpoints"
    by (simp add: pm10Breakpoints_def)
  from calcAQI_segment_endpoints have
    a: "\<forall>bp \<in> set pm25Breakpoints.
      calcAQI (JNum (cLow bp)) pm25Breakpoints = JNum (iLow bp)
      \<and> calcAQI (JNum (cHigh bp)) pm25Breakpoints = JNum (iHigh bp)"
    and b: "\<forall>bp \<in> set pm10Breakpoints.
      calcAQI (JNum (cLow bp)) pm10Breakpoints = JNum (iLow bp)
      \<and> calcAQI (JNum (cHigh bp)) pm10Breakpoints = JNum (iHigh bp)"
    by blast+
  from bspec [OF a m25] bspec [OF b m10] m25 m10 show ?thesis by simp
qed

text \<open>
  C6. Within one segment of a pollutant's table the sub-index does not decrease: for
  concentrations \<open>c1 \<le> c2\<close> strictly inside the same segment, \<open>calcAQI\<close> returns
  numbers \<open>a1 \<le> a2\<close>.
\<close>

theorem calcAQI_monotone_within_segment:
  assumes tbl: "tbl = pm25Breakpoints \<or> tbl = pm10Breakpoints"
    and bp: "bp \<in> set tbl"
    and lo: "cLow bp < c1" and le: "c1 \<le> c2" and hi: "c2 < cHigh bp"
  shows "\<exists>a1 a2. calcAQI (JNum c1) tbl = JNum a1 \<and> calcAQI (JNum c2) tbl = JNum a2 \<and> a1 \<le> a2"
proof -
  define k where "k = (iHigh bp - iLow bp) / (cHigh bp - cLow bp)"
  from tbl have ord: "ordered_table tbl"
    using ordered_pm25Breakpoints ordered_pm10Breakpoints by auto
  from lo le hi have in1: "cLow bp \<le> c1" "c1 \<le> cHigh bp" and in2: "cLow bp \<le> c2" "c2 \<le> cHigh bp"
    by simp_all
  have r1: "calcAQI (JNum c1) tbl = JNum (Math_round (k * (c1 - cLow bp) + iLow bp))"
    using calcAQI_loop_in_segment [OF ord bp in1] by (simp add: k_def)
  have r2: "calcAQI (JNum c2) tbl = JNum (Math_round (k * (c2 - cLow bp) + iLow bp))"
    using calcAQI_loop_in_segment [OF ord bp in2] by (simp add: k_def)
  have k0: "0 \<le> k"
    unfolding k_def by (rule ordered_table_slope [OF ord bp])
  from le have "c1 - cLow bp \<le> c2 - cLow bp" by simp
  then have "k * (c1 - cLow bp) \<le> k * (c2 - cLow bp)"
    using k0 by (rule mult_left_mono)
  then have "k * (c1 - cLow bp) + iLow bp \<le> k * (c2 - cLow bp) + iLow bp"
    by simp
  then have "Math_round (k * (c1 - cLow bp) + iLow bp) \<le> Math_round (k * (c2 - cLow bp) + iLow bp)"
    by (rule Math_round_mono)
  with r1 r2 show ?thesis by blast
qed

theorem calcAQI_monotone_within_segment_witness:
  "\<lparr>cLow = 12.1, cHigh = 35.4, iLow = 51, iHigh = 100\<rparr> \<in> set pm25Breakpoints
   \<and> (12.1::rat) < 13 \<and> (13::rat) \<le> 30 \<and> (30::rat) < 35.4
   \<and> (\<exists>a1 a2. calcAQI (JNum 13) pm25Breakpoints = JNum a1
         \<and> calcAQI (JNum 30) pm25Breakpoints = JNum a2 \<and> a1 \<le> a2)
   \<and> calcAQI (JNum 13) pm25Breakpoints = JNum 53
   \<and> calcAQI (JNum 30) pm25Breakpoints = JNum 89"
proof -
  have m: "\<lparr>cLow = 12.1, cHigh = 35.4, iLow = 51, iHigh = 100\<rparr> \<in> set pm25Breakpoints"
    by (simp add: pm25Breakpoints_def)
  have v13: "calcAQI (JNum 13) pm25Breakpoints = JNum 53"
    by (simp add: pm25Breakpoints_def Math_round_def floor_eq_iff)
  have v30: "calcAQI (JNum 30) pm25Breakpoints = JNum 89"
    by (simp add: pm25Breakpoints_def Math_round_def floor_eq_iff)
  have "\<exists>a1 a2. calcAQI (JNum 13) pm25Breakpoints = JNum a1
         \<and> calcAQI (JNum 30) pm25Breakpoints = JNum a2 \<and> a1 \<le> a2"
    by (rule calcAQI_monotone_within_segment [OF _ m]) simp_all
  with m v13 v30 show ?thesis by simp
qed

text \<open>
  C7. A concentration outside every segment of the table gives \<open>null\<close>, for any table;
  on the two tables of the dashboard this holds for every negative concentration and for
  every concentration above the last upper bound (500 for PM2.5, 604 for PM10): the value
  is not clamped to the nearest segment.
\<close>

theorem calcAQI_outside_segments:
  "((\<forall>bp \<in> set breakpoints. c < cLow bp \<or> cHigh bp < c) \<longrightarrow> calcAQI (JNum c) breakpoints = JNull)
   \<and> (c < 0 \<longrightarrow> calcAQI (JNum c) pm25Breakpoints = JNull \<and> calcAQI (JNum c) pm10Breakpoints = JNull)
   \<and> (500 < c \<longrightarrow> calcAQI (JNum c) pm25Breakpoints = JNull)
   \<and> (604 < c \<longrightarrow> calcAQI (JNum c) pm10Breakpoints = JNull)"
proof -
  have general: "\<And>bps. (\<forall>bp \<in> set bps. c < cLow bp \<or> cHigh bp < c) \<Longrightarrow> calcAQI (JNum c) bps = JNull"
    by (simp add: calcAQI_loop_outside)
  have neg25: "c < 0 \<Longrightarrow> calcAQI (JNum c) pm25Breakpoints = JNull"
    by (rule general) (simp add: pm25Breakpoints_def)
  have neg10: "c < 0 \<Longrightarrow> calcAQI (JNum c) pm10Breakpoints = JNull"
    by (rule general) (simp add: pm10Breakpoints_def)
  have big25: "500 < c \<Longrightarrow> calcAQI (JNum c) pm25Breakpoints = JNull"
    by (rule general) (simp add: pm25Breakpoints_def)
  have big10: "604 < c \<Longrightarrow> calcAQI (JNum c) pm10Breakpoints = JNull"
    by (rule general) (simp add: pm10Breakpoints_def)
  from general neg25 neg10 big25 big10 show ?thesis by blast
qed

theorem calcAQI_outside_segments_witness:
  "(-1::rat) < 0 \<and> calcAQI (JNum (-1)) pm25Breakpoints = JNull
   \<and> calcAQI (JNum (-1)) pm10Breakpoints = JNull
   \<and> (500::rat) < 600 \<and> calcAQI (JNum 600) pm25Breakpoints = JNull
   \<and> (604::rat) < 700 \<and> calcAQI (JNum 700) pm10Breakpoints = JNull
   \<and> calcAQI (JNum 35.45) pm25Breakpoints = JNull"
proof -
  have out: "\<forall>bp \<in> set pm25Breakpoints. 35.45 < cLow bp \<or> cHigh bp < 35.45"
    by (simp add: pm25Breakpoints_def)
  from calcAQI_outside_segments [of pm25Breakpoints "35.45"] out
  have "calcAQI (JNum 35.45) pm25Breakpoints = JNull" by blast
  with calcAQI_outside_segments [of "[]" "-1"] calcAQI_outside_segments [of "[]" 600]
    calcAQI_outside_segments [of "[]" 700]
  show ?thesis by simp
qed

text \<open>
  C10. Between consecutive segments there are gaps: every PM2.5 concentration strictly
  between 12 and 12.1, and every PM10 concentration strictly between 54 and 55, has a
  null sub-index and, presented alone, a combined AQI of 0. So some strictly positive
  concentration below the table's maximum gives the combined AQI 0, for either pollutant.
\<close>

theorem calcAQI_gaps:
  "(12 < c \<and> c < 12.1 \<longrightarrow>
      calcAQI (JNum c) pm25Breakpoints = JNull \<and> getAQIFromPM (JNum c) JUndefined = JNum 0)
   \<and> (54 < c \<and> c < 55 \<longrightarrow>
      calcAQI (JNum c) pm10Breakpoints = JNull \<and> getAQIFromPM JUndefined (JNum c) = JNum 0)
   \<and> (\<exists>c'. 0 < c' \<and> c' < 500 \<and> calcAQI (JNum c') pm25Breakpoints = JNull
          \<and> getAQIFromPM (JNum c') JUndefined = JNum 0)
   \<and> (\<exists>c'. 0 < c' \<and> c' < 604 \<and> calcAQI (JNum c') pm10Breakpoints = JNull
          \<and> getAQIFromPM JUndefined (JNum c') = JNum 0)"
proof -
  have g25: "12 < c \<Longrightarrow> c < 12.1 \<Longrightarrow> calcAQI (JNum c) pm25Breakpoints = JNull" for c
    by (simp add: pm25Breakpoints_def)
  have g10: "54 < c \<Longrightarrow> c < 55 \<Longrightarrow> calcAQI (JNum c) pm10Breakpoints = JNull" for c
    by (simp add: pm10Breakpoints_def)
  have a25: "calcAQI (JNum c) pm25Breakpoints = JNull \<Longrightarrow> getAQIFromPM (JNum c) JUndefined = JNum 0" for c
    by (simp add: getAQIFromPM_def js_or_def Math_max_def)
  have a10: "calcAQI (JNum c) pm10Breakpoints = JNull \<Longrightarrow> getAQIFromPM JUndefined (JNum c) = JNum 0" for c
    by (simp add: getAQIFromPM_def js_or_def Math_max_def)
  have e25: "\<exists>c'. 0 < c' \<and> c' < 500 \<and> calcAQI (JNum c') pm25Breakpoints = JNull
          \<and> getAQIFromPM (JNum c') JUndefined = JNum 0"
  proof (intro exI conjI)
    show "calcAQI (JNum 12.05) pm25Breakpoints = JNull" by (rule g25) simp_all
    then show "getAQIFromPM (JNum 12.05) JUndefined = JNum 0" by (rule a25)
  qed simp_all
  have e10: "\<exists>c'. 0 < c' \<and> c' < 604 \<and> calcAQI (JNum c') pm10Breakpoints = JNull
          \<and> getAQIFromPM JUndefined (JNum c') = JNum 0"
  proof (intro exI conjI)
    show "calcAQI (JNum 54.5) pm10Breakpoints = JNull" by (rule g10) simp_all
    then show "getAQIFromPM JUndefined (JNum 54.5) = JNum 0" by (rule a10)
  qed simp_all
  from g25 [of c] g10 [of c] a25 [of c] a10 [of c] e25 e10 show ?thesis by blast
qed

theorem calcAQI_gaps_witness:
  "(12::rat) < 12.05 \<and> (12.05::rat) < 12.1
   \<and> calcAQI (JNum 12.05) pm25Breakpoints = JNull
   \<and> getAQIFromPM (JNum 12.05) JUndefined = JNum 0
   \<and> (54::rat) < 54.5 \<and> (54.5::rat) < 55
   \<and> calcAQI (JNum 54.5) pm10Breakpoints = JNull
   \<and> getAQIFromPM JUndefined (JNum 54.5) = JNum 0"
  using calcAQI_gaps [of "12.05"] calcAQI_gaps [of "54.5"] by simp

section \<open>Properties of the prediction generator\<close>

text \<open>
  C3. For every defined (numeric) current AQI \<open>a\<close> the generator sets exactly the three
  pairs (Day 1, min a 500), (Day 2, min (a + 10) 500), (Day 3, min (a + 20) 500), in
  this order; from 100 the values are 100, 110, 120 and from 495 they are 495, 500, 500.
\<close>

theorem generatePredictions_three_days:
  "predictions (generatePredictions (JNum a) s) =
     [(''Day 1'', JNum (min a 500)), (''Day 2'', JNum (min (a + 10) 500)),
      (''Day 3'', JNum (min (a + 20) 500))]
   \<and> map snd (predictions (generatePredictions (JNum 100) s)) = [JNum 100, JNum 110, JNum 120]
   \<and> map snd (predictions (generatePredictions (JNum 495) s)) = [JNum 495, JNum 500, JNum 500]"
  by (simp add: generatePredictions_def enumerate_eq_zip Number_toString.simps digit_char_def
      Math_min_def js_add_def)

section \<open>Properties of the severity classifier\<close>

text \<open>
  C4. On integer AQI values \<open>getQuality\<close> assigns six tiers with upper-inclusive
  bounds: 0..50 Good, 51..100 Moderate, 101..150 Unhealthy (Sensitive), 151..200
  Unhealthy, 201..300 Very Unhealthy, 301 and above Hazardous. The six labels are
  pairwise different, so each value has exactly one tier; 50 is Good, 51 Moderate,
  300 Very Unhealthy and 301 Hazardous.
\<close>

theorem getQuality_tiers:
  fixes a :: int
  shows "(0 \<le> a \<and> a \<le> 50 \<longrightarrow> label (getQuality (JNum (of_int a))) = ''Good'')
   \<and> (51 \<le> a \<and> a \<le> 100 \<longrightarrow> label (getQuality (JNum (of_int a))) = ''Moderate'')
   \<and> (101 \<le> a \<and> a \<le> 150 \<longrightarrow> label (getQuality (JNum (of_int a))) = ''Unhealthy (Sensitive)'')
   \<and> (151 \<le> a \<and> a \<le> 200 \<longrightarrow> label (getQuality (JNum (of_int a))) = ''Unhealthy'')
   \<and> (201 \<le> a \<and> a \<le> 300 \<longrightarrow> label (getQuality (JNum (of_int a))) = ''Very Unhealthy'')
   \<and> (301 \<le> a \<longrightarrow> label (getQuality (JNum (of_int a))) = ''Hazardous'')
   \<and> distinct [''Good'', ''Moderate'', ''Unhealthy (Sensitive)'', ''Unhealthy'',
                ''Very Unhealthy'', ''Hazardous'']
   \<and> label (getQuality (JNum 50)) = ''Good''
   \<and> label (getQuality (JNum 51)) = ''Moderate''
   \<and> label (getQuality (JNum 300)) = ''Very Unhealthy''
   \<and> label (getQuality (JNum 301)) = ''Hazardous''"
  by (simp add: getQuality_def js_le_def)

theorem getQuality_tiers_witness:
  "(0::int) \<le> 37 \<and> (37::int) \<le> 50 \<and> label (getQuality (JNum (of_int 37))) = ''Good''
   \<and> (151::int) \<le> 180 \<and> (180::int) \<le> 200 \<and> label (getQuality (JNum (of_int 180))) = ''Unhealthy''
   \<and> (301::int) \<le> 450 \<and> label (getQuality (JNum (of_int 450))) = ''Hazardous''"
  using getQuality_tiers [of 37] getQuality_tiers [of 180] getQuality_tiers [of 450]
  by simp

section \<open>Properties of the health advice\<close>

text \<open>
  C8, as the code has it. The advice uses five tiers, not six: on integer AQI values
  1..50, 51..100, 101..150, 151..200 and 201 and above each select one of five pairwise
  different sentences, so 201..300 and 301 and above receive the same sentence; for the
  AQI 0 no sentence is shown.
\<close>

theorem healthAdvice_five_tiers:
  fixes a :: int
  shows "(1 \<le> a \<and> a \<le> 50 \<longrightarrow> healthAdvice False (JNum (of_int a))
            = Some ''Air quality is good. Enjoy outdoor activities!'')
   \<and> (51 \<le> a \<and> a \<le> 100 \<longrightarrow> healthAdvice False (JNum (of_int a))
            = Some ''Moderate air quality. Sensitive people should limit outdoor activity.'')
   \<and> (101 \<le> a \<and> a \<le> 150 \<longrightarrow> healthAdvice False (JNum (of_int a))
            = Some ''Unhealthy for sensitive groups. Avoid outdoor exercise.'')
   \<and> (151 \<le> a \<and> a \<le> 200 \<longrightarrow> healthAdvice False (JNum (of_int a))
            = Some ''Unhealthy air! Stay indoors with filtered air.'')
   \<and> (201 \<le> a \<longrightarrow> healthAdvice False (JNum (of_int a))
            = Some ''Very unhealthy! Avoid going outside and use air purifiers.'')
   \<and> healthAdvice False (JNum 0) = None
   \<and> distinct [''Air quality is good. Enjoy outdoor activities!'',
        ''Moderate air quality. Sensitive people should limit outdoor activity.'',
        ''Unhealthy for sensitive groups. Avoid outdoor exercise.'',
        ''Unhealthy air! Stay indoors with filtered air.'',
        ''Very unhealthy! Avoid going outside and use air purifiers.'']"
  by (simp add: healthAdvice_def js_le_def)

theorem healthAdvice_five_tiers_witness:
  "(1::int) \<le> 42 \<and> (42::int) \<le> 50
   \<and> healthAdvice False (JNum (of_int 42)) = Some ''Air quality is good. Enjoy outdoor activities!''
   \<and> (201::int) \<le> 250
   \<and> healthAdvice False (JNum (of_int 250))
       = Some ''Very unhealthy! Avoid going outside and use air purifiers.''
   \<and> (201::int) \<le> 350
   \<and> healthAdvice False (JNum (of_int 350))
       = Some ''Very unhealthy! Avoid going outside and use air purifiers.''"
  using healthAdvice_five_tiers [of 42] healthAdvice_five_tiers [of 250]
    healthAdvice_five_tiers [of 350]
  by simp

text \<open>
  C8 as stated fails: the AQI values 250 (in 201..300) and 350 (above 300) receive the
  same advice, and the AQI 0 (in 0..50) receives none.
\<close>

theorem healthAdvice_same_above_200:
  "healthAdvice False (JNum 250) = Some ''Very unhealthy! Avoid going outside and use air purifiers.''
   \<and> healthAdvice False (JNum 350) = healthAdvice False (JNum 250)
   \<and> healthAdvice False (JNum 0) = None"
  by (simp add: healthAdvice_def js_le_def)

section \<open>Properties of the fetch pipeline\<close>

lemma validValue_iff: "validValue v \<longleftrightarrow> v \<noteq> JNull \<and> v \<noteq> JNaN \<and> v \<noteq> JUndefined"
  by (cases v) (simp_all add: validValue_def isNaN_def)

lemma slice_from_end_suffix: "\<exists>pre. xs = pre @ slice_from_end n xs"
proof
  show "xs = take (length xs - n) xs @ slice_from_end n xs"
    by (simp add: slice_from_end_def)
qed

lemma length_slice_from_end: "length (slice_from_end n xs) = min n (length xs)"
  by (simp add: slice_from_end_def)

lemma trendLabels_positional:
  "trendLabels series = map (\<lambda>i. ''Hour '' @ Number_toString i) [1..<Suc (length series)]"
proof -
  have "map (\<lambda>i. ''Hour '' @ Number_toString i) [Suc 0..<Suc (length series)]
        = map (\<lambda>i. ''Hour '' @ Number_toString i) (map Suc [0..<length series])"
    by (simp only: map_Suc_upt)
  then show ?thesis by (simp add: trendLabels_def comp_def)
qed

lemma pmTrend_fetchAirQuality:
  "pmTrend (fetchAirQuality (AqHourly hourly) (Some nasaLatest) s) =
     \<lparr>pm2_5 = trendSeries (or_empty (hourly ''pm2_5'')),
      pm10 = trendSeries (or_empty (hourly ''pm10'')),
      labels = trendLabels (trendSeries (or_empty (hourly ''pm2_5'')))\<rparr>"
  by (simp add: fetchAirQuality_def generatePredictions_def Let_def)

lemma trendSeries_filter:
  "trendSeries xs = slice_from_end 7 (filter (\<lambda>v. v \<noteq> JNull \<and> v \<noteq> JNaN \<and> v \<noteq> JUndefined) xs)"
proof -
  have "validValue = (\<lambda>v. v \<noteq> JNull \<and> v \<noteq> JNaN \<and> v \<noteq> JUndefined)"
    by (rule ext) (rule validValue_iff)
  then show ?thesis by (simp add: trendSeries_def)
qed

lemma getAQIFromPM_number: "\<exists>x. getAQIFromPM c25 c10 = JNum x"
  by (simp add: getAQIFromPM_def js_or_zero Math_max_def)

text \<open>
  C5. For PM2.5 readings \<open>xs\<close> and PM10 readings \<open>ys\<close> with null or NaN entries among
  them, the trend keeps, for each pollutant on its own, the last 7 of the entries that
  are numbers (all of them when fewer than 7 are), so that the PM2.5 series has length
  min 7 of the count of valid entries; the labels are Hour 1 .. Hour N with N the length
  of the PM2.5 series alone, whatever the length of the PM10 series.
\<close>

theorem trend_extraction:
  assumes h25: "hourly ''pm2_5'' = Some xs" and h10: "hourly ''pm10'' = Some ys"
    and t: "t = pmTrend (fetchAirQuality (AqHourly hourly) (Some nasaLatest) s)"
    and v25: "valid25 = filter (\<lambda>v. v \<noteq> JNull \<and> v \<noteq> JNaN \<and> v \<noteq> JUndefined) xs"
    and v10: "valid10 = filter (\<lambda>v. v \<noteq> JNull \<and> v \<noteq> JNaN \<and> v \<noteq> JUndefined) ys"
  shows "(\<exists>pre. valid25 = pre @ pm2_5 t) \<and> length (pm2_5 t) = min 7 (length valid25)
    \<and> (\<exists>pre. valid10 = pre @ pm10 t) \<and> length (pm10 t) = min 7 (length valid10)
    \<and> labels t = map (\<lambda>i. ''Hour '' @ Number_toString i) [1..<Suc (length (pm2_5 t))]
    \<and> length (labels t) = length (pm2_5 t)"
proof -
  have p25: "pm2_5 t = slice_from_end 7 valid25"
    by (simp add: t pmTrend_fetchAirQuality h25 or_empty_def trendSeries_filter v25)
  have p10: "pm10 t = slice_from_end 7 valid10"
    by (simp add: t pmTrend_fetchAirQuality h10 or_empty_def trendSeries_filter v10)
  have lab: "labels t = trendLabels (pm2_5 t)"
    by (simp add: t pmTrend_fetchAirQuality)
  have l1: "labels t = map (\<lambda>i. ''Hour '' @ Number_toString i) [1..<Suc (length (pm2_5 t))]"
    unfolding lab by (rule trendLabels_positional)
  have l2: "length (labels t) = length (pm2_5 t)"
    unfolding lab by (simp add: trendLabels_def)
  from p25 p10 l1 l2 slice_from_end_suffix [of valid25 7] slice_from_end_suffix [of valid10 7]
  show ?thesis by (simp add: length_slice_from_end)
qed

theorem trend_extraction_witness:
  "pmTrend (fetchAirQuality
      (AqHourly [''pm2_5'' \<mapsto> [JNum 1, JNum 2, JNull, JNum 3, JNum 4, JNum 5, JNum 6, JNum 7, JNum 8],
                 ''pm10'' \<mapsto> [JNum 10, JNum 20, JNaN, JNum 30, JNum 40, JNum 50]])
      (Some Map.empty) initial_state)
     = \<lparr>pm2_5 = [JNum 2, JNum 3, JNum 4, JNum 5, JNum 6, JNum 7, JNum 8],
        pm10 = [JNum 10, JNum 20, JNum 30, JNum 40, JNum 50],
        labels = [''Hour 1'', ''Hour 2'', ''Hour 3'', ''Hour 4'', ''Hour 5'', ''Hour 6'',
                  ''Hour 7'']\<rparr>
   \<and> length (labels (pmTrend (fetchAirQuality
      (AqHourly [''pm2_5'' \<mapsto> [JNum 1, JNum 2, JNull, JNum 3, JNum 4, JNum 5, JNum 6, JNum 7, JNum 8],
                 ''pm10'' \<mapsto> [JNum 10, JNum 20, JNaN, JNum 30, JNum 40, JNum 50]])
      (Some Map.empty) initial_state))) = 7
   \<and> length (pm10 (pmTrend (fetchAirQuality
      (AqHourly [''pm2_5'' \<mapsto> [JNum 1, JNum 2, JNull, JNum 3, JNum 4, JNum 5, JNum 6, JNum 7, JNum 8],
                 ''pm10'' \<mapsto> [JNum 10, JNum 20, JNaN, JNum 30, JNum 40, JNum 50]])
      (Some Map.empty) initial_state))) = 5"
proof -
  define hourly :: "string \<rightharpoonup> jsval list" where
    "hourly = [''pm2_5'' \<mapsto> [JNum 1, JNum 2, JNull, JNum 3, JNum 4, JNum 5, JNum 6, JNum 7, JNum 8],
               ''pm10'' \<mapsto> [JNum 10, JNum 20, JNaN, JNum 30, JNum 40, JNum 50]]"
  define t where "t = pmTrend (fetchAirQuality (AqHourly hourly) (Some Map.empty) initial_state)"
  have h25: "hourly ''pm2_5'' = Some [JNum 1, JNum 2, JNull, JNum 3, JNum 4, JNum 5, JNum 6, JNum 7, JNum 8]"
    by (simp add: hourly_def)
  have h10: "hourly ''pm10'' = Some [JNum 10, JNum 20, JNaN, JNum 30, JNum 40, JNum 50]"
    by (simp add: hourly_def)
  note th = trend_extraction [OF h25 h10 t_def refl refl]
  from th have l25: "length (pm2_5 t) = 7" and l10: "length (pm10 t) = 5"
    and lab: "length (labels t) = length (pm2_5 t)"
    by simp_all
  have ev: "t = \<lparr>pm2_5 = [JNum 2, JNum 3, JNum 4, JNum 5, JNum 6, JNum 7, JNum 8],
        pm10 = [JNum 10, JNum 20, JNum 30, JNum 40, JNum 50],
        labels = [''Hour 1'', ''Hour 2'', ''Hour 3'', ''Hour 4'', ''Hour 5'', ''Hour 6'',
                  ''Hour 7'']\<rparr>"
    by (simp add: t_def pmTrend_fetchAirQuality h25 h10 or_empty_def trendSeries_def
        slice_from_end_def validValue_def isNaN_def trendLabels_def upt_rec
        Number_toString.simps digit_char_def)
  from ev l25 l10 lab show ?thesis unfolding t_def hourly_def by simp
qed

text \<open>
  C9, as the code has it. Every run of the pipeline that completes leaves exactly 3
  predictions: the current AQI it computes is always a number (0 when no concentration
  is valid), never undefined, and \<open>generatePredictions\<close> sets 3 entries whatever its
  argument is. The sequence is never left empty by a completed run. A run that fails
  (a request throws, or the response has no \<open>hourly\<close>) leaves the predictions as they
  were.
\<close>

theorem predictions_always_three:
  "length (predictions (fetchAirQuality (AqHourly hourly) (Some nasaLatest) s)) = 3
   \<and> (\<exists>x. aqi (fetchAirQuality (AqHourly hourly) (Some nasaLatest) s) = JNum x)
   \<and> length (predictions (generatePredictions v s)) = 3
   \<and> predictions (fetchAirQuality AqFailed nasaRes s) = predictions s
   \<and> predictions (fetchAirQuality AqNoHourly nasaRes s) = predictions s
   \<and> predictions (fetchAirQuality res None s) = predictions s"
proof -
  obtain x where "getAQIFromPM (property (latestValues hourly) ''pm2_5'')
                               (property (latestValues hourly) ''pm10'') = JNum x"
    using getAQIFromPM_number by blast
  then have completed: "length (predictions (fetchAirQuality (AqHourly hourly) (Some nasaLatest) s)) = 3
      \<and> (\<exists>x. aqi (fetchAirQuality (AqHourly hourly) (Some nasaLatest) s) = JNum x)
      \<and> length (predictions (generatePredictions v s)) = 3"
    by (simp add: fetchAirQuality_def Let_def generatePredictions_def)
  have failed: "predictions (fetchAirQuality AqFailed nasaRes s) = predictions s"
    by (simp add: fetchAirQuality_def)
  have nohourly: "predictions (fetchAirQuality AqNoHourly nasaRes s) = predictions s"
    by (cases nasaRes) (simp_all add: fetchAirQuality_def)
  have nonasa: "predictions (fetchAirQuality res None s) = predictions s"
    by (cases res) (simp_all add: fetchAirQuality_def)
  from completed failed nohourly nonasa show ?thesis by simp
qed

text \<open>
  C9 as stated fails: with no valid concentration in the response (every entry null) the
  current AQI is 0 and the predictions are 0, 10, 20, not empty; and on \<open>undefined\<close>
  itself \<open>generatePredictions\<close> still sets three entries, each with the AQI \<open>NaN\<close>.
\<close>

theorem predictions_nonempty_without_data:
  "predictions (fetchAirQuality (AqHourly [''pm2_5'' \<mapsto> [JNull, JNull], ''pm10'' \<mapsto> [JNull]])
       (Some Map.empty) initial_state)
     = [(''Day 1'', JNum 0), (''Day 2'', JNum 10), (''Day 3'', JNum 20)]
   \<and> aqi (fetchAirQuality (AqHourly [''pm2_5'' \<mapsto> [JNull, JNull], ''pm10'' \<mapsto> [JNull]])
       (Some Map.empty) initial_state) = JNum 0
   \<and> predictions (generatePredictions JUndefined initial_state)
     = [(''Day 1'', JNaN), (''Day 2'', JNaN), (''Day 3'', JNaN)]"
  by (simp add: fetchAirQuality_def Let_def latestValues_def validValue_def isNaN_def
      property_def getAQIFromPM_def js_or_def Math_max_def generatePredictions_def
      enumerate_eq_zip Number_toString.simps digit_char_def Math_min_def js_add_def)

end
